theory Spec2Isabelle
  imports Main
begin

section \<open>The LangChain quickstart script\<close>

text \<open>
  \<^verbatim>\<open>src/LangChain/quickstart_basic_agent.py\<close> is a module without functions of its own
  apart from the mock tool: its body runs top to bottom when the module is executed.

  \<^item> \<^verbatim>\<open>os.environ\<close> is a dictionary from names to strings: a map.
  \<^item> \<^verbatim>\<open>os.getenv(name)\<close> is the dictionary's \<^verbatim>\<open>get\<close>: the value, or \<^verbatim>\<open>None\<close>.
  \<^item> \<^verbatim>\<open>raise\<close> is the left summand of the result.
  \<^item> \<^verbatim>\<open>load_dotenv\<close>, \<^verbatim>\<open>create_agent\<close> and \<^verbatim>\<open>agent.invoke\<close> belong to libraries
    outside the repository. They are parameters of the model: \<^verbatim>\<open>load_dotenv\<close> as
    a function on the environment, the other two as functions that read the
    environment and either raise or return.
\<close>

type_synonym environ = "string \<rightharpoonup> string"

datatype pyexn = ValueError string | TypeError string | LibraryError string

record ('agent, 'resp) module_state =
  environ :: environ
  agent :: "'agent option"
  response :: "'resp option"
  stdout :: "'resp list"

definition getenv :: "environ \<Rightarrow> string \<Rightarrow> string option" where
  "getenv env name = env name"

text \<open>
  The truth value Python gives to the result of \<^verbatim>\<open>os.getenv\<close> in \<^verbatim>\<open>if gpt_api_key:\<close>:
  \<^verbatim>\<open>None\<close> is false, and a string is true exactly when it is not empty.
\<close>

fun truthy :: "string option \<Rightarrow> bool" where
  "truthy None = False"
| "truthy (Some s) = (s \<noteq> [])"

text \<open>
  Lines 9 to 15. Assigning to \<^verbatim>\<open>os.environ\<close> accepts strings only; the branch that would
  assign \<^verbatim>\<open>None\<close> is the \<^verbatim>\<open>TypeError\<close> of the dictionary, and the truth test keeps the
  module out of it.
  \<^verbatim>\<open>
  gpt_api_key = os.getenv("OPENAI_API_KEY")
  if gpt_api_key:
      os.environ["OPENAI_API_KEY"] = gpt_api_key
  else:
      raise ValueError("GPT_API not found in .env file")
  \<close>
\<close>

definition set_openai_key :: "environ \<Rightarrow> pyexn + environ" where
  "set_openai_key env =
     (let gpt_api_key = getenv env ''OPENAI_API_KEY'' in
      if truthy gpt_api_key
      then (case gpt_api_key of
              Some v \<Rightarrow> Inr (env(''OPENAI_API_KEY'' \<mapsto> v))
            | None \<Rightarrow> Inl (TypeError ''str expected, not NoneType''))
      else Inl (ValueError ''GPT_API not found in .env file''))"

text \<open>
  Lines 21 to 32: the agent is constructed, invoked once, and the response printed.
  Whatever the two library calls raise leaves the module with the state reached so far.
\<close>

definition run_agent ::
  "(environ \<Rightarrow> pyexn + 'agent) \<Rightarrow> ('agent \<Rightarrow> environ \<Rightarrow> pyexn + 'resp) \<Rightarrow> environ
     \<Rightarrow> (pyexn \<times> ('agent, 'resp) module_state) + ('agent, 'resp) module_state" where
  "run_agent create_agent invoke env =
     (case create_agent env of
        Inl e \<Rightarrow> Inl (e, \<lparr>environ = env, agent = None, response = None, stdout = []\<rparr>)
      | Inr a \<Rightarrow>
          (case invoke a env of
             Inl e \<Rightarrow> Inl (e, \<lparr>environ = env, agent = Some a, response = None, stdout = []\<rparr>)
           | Inr r \<Rightarrow>
               Inr \<lparr>environ = env, agent = Some a, response = Some r, stdout = [r]\<rparr>))"

text \<open>The whole module, from the environment the process starts with.\<close>

definition quickstart_module ::
  "(environ \<Rightarrow> environ) \<Rightarrow> (environ \<Rightarrow> pyexn + 'agent) \<Rightarrow> ('agent \<Rightarrow> environ \<Rightarrow> pyexn + 'resp)
     \<Rightarrow> environ
     \<Rightarrow> (pyexn \<times> ('agent, 'resp) module_state) + ('agent, 'resp) module_state" where
  "quickstart_module load_dotenv create_agent invoke osenv =
     (let env = load_dotenv osenv in
      case set_openai_key env of
        Inl e \<Rightarrow> Inl (e, \<lparr>environ = env, agent = None, response = None, stdout = []\<rparr>)
      | Inr env' \<Rightarrow> run_agent create_agent invoke env')"

text \<open>The state the module is left in, whether it ended by an exception or not.\<close>

fun last_state ::
  "(pyexn \<times> ('agent, 'resp) module_state) + ('agent, 'resp) module_state
     \<Rightarrow> ('agent, 'resp) module_state" where
  "last_state (Inl (e, s)) = s"
| "last_state (Inr s) = s"

subsection \<open>Concrete environments and library stand-ins\<close>

text \<open>
  Three environments as they can be after \<^verbatim>\<open>load_dotenv()\<close>: the variable missing, the
  variable present with an empty value (the line \<^verbatim>\<open>OPENAI_API_KEY=\<close> in the \<^verbatim>\<open>.env\<close>
  file, or in the shell), and the variable present with a value.
\<close>

definition env_no_key :: environ where
  "env_no_key = [''HOME'' \<mapsto> ''/root'']"

definition env_blank_key :: environ where
  "env_blank_key = [''OPENAI_API_KEY'' \<mapsto> '''']"

definition env_good_key :: environ where
  "env_good_key = [''OPENAI_API_KEY'' \<mapsto> ''sk-test'']"

text \<open>A \<^verbatim>\<open>.env\<close> file with nothing to add, an agent that is built, a response that comes back.\<close>

definition dotenv_nothing :: "environ \<Rightarrow> environ" where
  "dotenv_nothing env = env"

definition agent_built :: "environ \<Rightarrow> pyexn + unit" where
  "agent_built env = Inr ()"

definition agent_answers :: "unit \<Rightarrow> environ \<Rightarrow> pyexn + string" where
  "agent_answers a env = Inr ''sunny''"

section \<open>Properties\<close>

lemma set_openai_key_raises:
  "\<not> truthy (getenv env ''OPENAI_API_KEY'')
   \<Longrightarrow> set_openai_key env = Inl (ValueError ''GPT_API not found in .env file'')"
  by (simp add: set_openai_key_def)

lemma set_openai_key_keeps:
  assumes "getenv env ''OPENAI_API_KEY'' = Some v" and "v \<noteq> []"
  shows "set_openai_key env = Inr env"
proof -
  from assms(1) have "env(''OPENAI_API_KEY'' \<mapsto> v) = env"
    by (auto simp add: getenv_def fun_upd_idem_iff)
  with assms show ?thesis
    by (simp add: set_openai_key_def)
qed

lemma run_agent_environ:
  "environ (last_state (run_agent create_agent invoke env)) = env"
  by (simp add: run_agent_def split: sum.splits)

text \<open>
  C10, as stated, at the environment where \<^verbatim>\<open>OPENAI_API_KEY\<close> is set to the empty
  string: the variable is set, and yet the module raises the \<^verbatim>\<open>ValueError\<close> with the
  agent not constructed, instead of proceeding.
\<close>

theorem quickstart_blank_key_counterexample:
  "getenv (dotenv_nothing env_blank_key) ''OPENAI_API_KEY'' = Some ''''
   \<and> quickstart_module dotenv_nothing agent_built agent_answers env_blank_key
       = Inl (ValueError ''GPT_API not found in .env file'',
              \<lparr>environ = env_blank_key, agent = None, response = None, stdout = []\<rparr>)"
  by (simp add: quickstart_module_def set_openai_key_def getenv_def
      dotenv_nothing_def env_blank_key_def)

text \<open>
  C10, amended: if after \<^verbatim>\<open>load_dotenv()\<close> the variable \<^verbatim>\<open>OPENAI_API_KEY\<close> is unset or
  set to the empty string, the module raises
  \<^verbatim>\<open>ValueError("GPT_API not found in .env file")\<close> with no agent constructed, whatever
  the agent library would have done. If it is set to a non-empty value, the check
  passes with the environment as it was, execution goes on to the construction of the
  agent, and \<^verbatim>\<open>os.environ["OPENAI_API_KEY"]\<close> is the value that was read in the state
  the module ends in.
\<close>

theorem quickstart_key_check:
  "((getenv (load_dotenv osenv) ''OPENAI_API_KEY'' = None
      \<or> getenv (load_dotenv osenv) ''OPENAI_API_KEY'' = Some '''')
     \<longrightarrow> quickstart_module load_dotenv create_agent invoke osenv
           = Inl (ValueError ''GPT_API not found in .env file'',
                  \<lparr>environ = load_dotenv osenv, agent = None, response = None, stdout = []\<rparr>))
   \<and> ((getenv (load_dotenv osenv) ''OPENAI_API_KEY'' = Some v \<and> v \<noteq> '''')
     \<longrightarrow> set_openai_key (load_dotenv osenv) = Inr (load_dotenv osenv)
         \<and> quickstart_module load_dotenv create_agent invoke osenv
             = run_agent create_agent invoke (load_dotenv osenv)
         \<and> environ (last_state (quickstart_module load_dotenv create_agent invoke osenv))
             ''OPENAI_API_KEY'' = Some v)"
proof (intro conjI impI)
  assume "getenv (load_dotenv osenv) ''OPENAI_API_KEY'' = None
      \<or> getenv (load_dotenv osenv) ''OPENAI_API_KEY'' = Some ''''"
  then have "\<not> truthy (getenv (load_dotenv osenv) ''OPENAI_API_KEY'')"
    by auto
  then show "quickstart_module load_dotenv create_agent invoke osenv
      = Inl (ValueError ''GPT_API not found in .env file'',
             \<lparr>environ = load_dotenv osenv, agent = None, response = None, stdout = []\<rparr>)"
    by (simp add: quickstart_module_def set_openai_key_raises)
next
  assume set: "getenv (load_dotenv osenv) ''OPENAI_API_KEY'' = Some v \<and> v \<noteq> ''''"
  then show keep: "set_openai_key (load_dotenv osenv) = Inr (load_dotenv osenv)"
    by (simp add: set_openai_key_keeps)
  then show run: "quickstart_module load_dotenv create_agent invoke osenv
      = run_agent create_agent invoke (load_dotenv osenv)"
    by (simp add: quickstart_module_def)
  from set show "environ (last_state (quickstart_module load_dotenv create_agent invoke osenv))
      ''OPENAI_API_KEY'' = Some v"
    by (simp add: run run_agent_environ getenv_def)
qed

theorem quickstart_key_check_witness:
  "quickstart_module dotenv_nothing agent_built agent_answers env_no_key
     = Inl (ValueError ''GPT_API not found in .env file'',
            \<lparr>environ = env_no_key, agent = None, response = None, stdout = []\<rparr>)
   \<and> getenv (dotenv_nothing env_good_key) ''OPENAI_API_KEY'' = Some ''sk-test''
   \<and> quickstart_module dotenv_nothing agent_built agent_answers env_good_key
       = Inr \<lparr>environ = env_good_key, agent = Some (), response = Some ''sunny'',
              stdout = [''sunny'']\<rparr>
   \<and> environ (last_state (quickstart_module dotenv_nothing agent_built agent_answers env_good_key))
       ''OPENAI_API_KEY'' = Some ''sk-test''"
proof -
  have unset: "getenv (dotenv_nothing env_no_key) ''OPENAI_API_KEY'' = None"
    by (simp add: getenv_def dotenv_nothing_def env_no_key_def)
  have given: "getenv (dotenv_nothing env_good_key) ''OPENAI_API_KEY'' = Some ''sk-test''"
    by (simp add: getenv_def dotenv_nothing_def env_good_key_def)
  have ran: "run_agent agent_built agent_answers (dotenv_nothing env_good_key)
      = Inr \<lparr>environ = env_good_key, agent = Some (), response = Some ''sunny'',
             stdout = [''sunny'']\<rparr>"
    by (simp add: run_agent_def agent_built_def agent_answers_def dotenv_nothing_def)
  show ?thesis
    using unset given ran
      quickstart_key_check [where load_dotenv = dotenv_nothing and osenv = env_no_key
        and create_agent = agent_built and invoke = agent_answers]
      quickstart_key_check [where load_dotenv = dotenv_nothing and osenv = env_good_key
        and create_agent = agent_built and invoke = agent_answers and v = "''sk-test''"]
    by (simp add: dotenv_nothing_def getenv_def)
qed

end
